theory Spec2Isabelle
  imports Main "HOL-Library.Word"
begin

section \<open>Money\<close>

text \<open>
  The protobuf message \<^verbatim>\<open>pb.Money\<close>. Its Go declaration lives in the generated
  package \<^verbatim>\<open>genproto\<close>; the fields are the ones \<^verbatim>\<open>main.go\<close> reads
  (\<^verbatim>\<open>CurrencyCode\<close>, \<^verbatim>\<open>Units\<close>, \<^verbatim>\<open>Nanos\<close>). The specification's data model
  gives both numeric fields as integers and the arithmetic as exact integer arithmetic,
  so they are mathematical integers here.
\<close>

record money =
  CurrencyCode :: string
  Units :: int
  Nanos :: int

definition nanosMod :: int where
  "nanosMod = 1000000000"

text \<open>The value of an amount in nanos, \<open>units * 1e9 + nanos\<close>.\<close>

definition money_value :: "money \<Rightarrow> int" where
  "money_value m = Units m * nanosMod + Nanos m"

text \<open>The invariant of the data model: the nanos stay below one unit in absolute value,
  and units and nanos carry the same sign or one of them is zero.\<close>

definition nanos_in_range :: "money \<Rightarrow> bool" where
  "nanos_in_range m = (0 \<le> \<bar>Nanos m\<bar> \<and> \<bar>Nanos m\<bar> < nanosMod)"

definition signs_agree :: "money \<Rightarrow> bool" where
  "signs_agree m = (\<not> (Units m > 0 \<and> Nanos m < 0) \<and> \<not> (Units m < 0 \<and> Nanos m > 0))"

definition money_invariant :: "money \<Rightarrow> bool" where
  "money_invariant m = (nanos_in_range m \<and> signs_agree m)"

datatype money_error = CurrencyMismatch

text \<open>
  Modelled from the spec: the normalisation step of \<^verbatim>\<open>money.Sum\<close> (package
  \<^verbatim>\<open>checkoutservice/money\<close>, not among the sources). When the nanos reach one unit in
  absolute value, one unit is carried with the sign of the nanos and the nanos are reduced
  modulo \<open>10^9\<close> keeping their sign; when units and nanos then have opposite signs, one unit
  is borrowed.
\<close>

definition carry :: "int \<times> int \<Rightarrow> int \<times> int" where
  "carry p = (case p of (u, n) \<Rightarrow>
     if \<bar>n\<bar> \<ge> nanosMod then (u + sgn n, sgn n * (\<bar>n\<bar> mod nanosMod)) else (u, n))"

definition borrow :: "int \<times> int \<Rightarrow> int \<times> int" where
  "borrow p = (case p of (u, n) \<Rightarrow>
     if u > 0 \<and> n < 0 then (u - 1, n + nanosMod)
     else if u < 0 \<and> n > 0 then (u + 1, n - nanosMod)
     else (u, n))"

definition normalize :: "int \<times> int \<Rightarrow> int \<times> int" where
  "normalize p = borrow (carry p)"

text \<open>
  Modelled from the spec: \<^verbatim>\<open>money.Sum\<close> (not among the sources). It requires equal
  currency codes and fails with \<open>CurrencyMismatch\<close> otherwise; it adds units and nanos
  componentwise and normalises.
\<close>

definition Sum :: "money \<Rightarrow> money \<Rightarrow> money_error + money" where
  "Sum a b =
     (if CurrencyCode a \<noteq> CurrencyCode b then Inl CurrencyMismatch
      else (case normalize (Units a + Units b, Nanos a + Nanos b) of (u, n) \<Rightarrow>
              Inr \<lparr>CurrencyCode = CurrencyCode a, Units = u, Nanos = n\<rparr>))"

text \<open>
  Modelled from the spec: \<^verbatim>\<open>money.MultiplySlow\<close> (not among the sources), the scalar
  multiplication of the money arithmetic. Repeated doubling: while bits of \<open>n\<close> remain, the
  current doubled value is added into the running total when the lowest bit is set, and
  the pair is doubled and normalised as in \<open>Sum\<close>. Multiplying by \<open>0\<close> gives the zero amount
  of the same currency.
\<close>

fun multiply_loop :: "int \<times> int \<Rightarrow> int \<times> int \<Rightarrow> nat \<Rightarrow> int \<times> int" where
  "multiply_loop acc cur n =
     (if n = 0 then acc
      else multiply_loop
             (if odd n then normalize (fst acc + fst cur, snd acc + snd cur) else acc)
             (normalize (2 * fst cur, 2 * snd cur))
             (n div 2))"

definition MultiplySlow :: "money \<Rightarrow> nat \<Rightarrow> money" where
  "MultiplySlow m n =
     (case multiply_loop (0, 0) (Units m, Nanos m) n of (u, k) \<Rightarrow>
        \<lparr>CurrencyCode = CurrencyCode m, Units = u, Nanos = k\<rparr>)"


section \<open>Checkout service: data\<close>

text \<open>
  The request-scoped messages of \<^verbatim>\<open>checkoutservice/main.go\<close>, with the field names the
  Go code reads. Quantities and zip codes are protobuf \<^verbatim>\<open>int32\<close> values, kept as integers;
  the one place where the width matters is the conversion \<^verbatim>\<open>uint32(quantity)\<close> in
  \<^verbatim>\<open>PlaceOrder\<close>, where the wrap-around is written out.
\<close>

record cart_item =
  ProductId :: string
  Quantity :: int

record order_item =
  Item :: cart_item
  Cost :: money

record address =
  StreetAddress :: string
  City :: string
  State :: string
  Country :: string
  ZipCode :: int

record order_result =
  OrderId :: string
  ShippingTrackingId :: string
  ShippingCost :: money
  ShippingAddress :: address
  Items :: "order_item list"

text \<open>The credit card is passed to the payment service untouched; it is an opaque string here.\<close>

record place_order_request =
  UserId :: string
  UserCurrency :: string
  Address :: address
  Email :: string
  CreditCard :: string

record place_order_response =
  Order :: order_result

record order_prep =
  orderItems :: "order_item list"
  cartItems :: "cart_item list"
  shippingCostLocalized :: money

text \<open>The envelope \<^verbatim>\<open>Response\<close> of the marketplace; \<open>Data_Result\<close> is the field
  \<^verbatim>\<open>Data.Result\<close> of the nested struct.\<close>

record response =
  Status :: string
  Message :: string
  Data_Result :: string

text \<open>The payload structs of the order relay (\<^verbatim>\<open>ExternalMoney\<close>, \<^verbatim>\<open>ExternalAddress\<close>,
  \<^verbatim>\<open>ExternalOrderItem\<close>, \<^verbatim>\<open>ExternalOrderData\<close>); their numeric fields receive the
  message fields unchanged.\<close>

record ExternalMoney =
  EM_CurrencyCode :: string
  EM_Units :: int
  EM_Nanos :: int

record ExternalAddress =
  EA_StreetAddress :: string
  EA_City :: string
  EA_State :: string
  EA_Country :: string
  EA_ZipCode :: int

record ExternalOrderItem =
  EI_ID :: string
  EI_Cost :: ExternalMoney

record ExternalOrderData =
  ED_OrderId :: string
  ED_ShippingTrackingId :: string
  ED_ShippingCost :: ExternalMoney
  ED_ShippingAddress :: ExternalAddress
  ED_Items :: "ExternalOrderItem list"

section \<open>Checkout service: errors, logging and collaborators\<close>

text \<open>
  A Go \<^verbatim>\<open>error\<close> is either a value handed back by a collaborator or a library
  (\<open>Opaque\<close>), or built by \<^verbatim>\<open>fmt.Errorf\<close> from a format string and its arguments. The
  text is not rendered: the format and the arguments are kept.
\<close>

datatype error = Opaque string | Errorf string "fmt_arg list"
and fmt_arg = ArgErr error | ArgNil | ArgStr string | ArgStrs "string list" | ArgBool bool
  | ArgNat nat

datatype code = Internal | Unavailable

text \<open>\<^verbatim>\<open>status.Errorf(code, format, args)\<close>; the format is a literal, or the text of an
  error where the code passes \<^verbatim>\<open>err.Error()\<close> as the format.\<close>

datatype fmt_string = Literal string | ErrorText error

datatype grpc_status = StatusErrorf code fmt_string "fmt_arg list"

datatype panic = IndexOutOfRange nat nat | MustPanic money_error

datatype level = Info | Warn

datatype http_get_result = TransportError error | ReadError error | Body string

text \<open>
  Everything \<^verbatim>\<open>PlaceOrder\<close> does to the outside world, in order: log entries, lines on
  standard output, and each call to a collaborator with the answer it got.
\<close>

datatype event =
    Log level string "fmt_arg list"
  | Println "fmt_arg list"
  | NewUUID "error + string"
  | GetCart string "error + cart_item list"
  | HttpGet string http_get_result
  | GetProduct string "error + money"
  | Convert money string "error + money"
  | GetQuote address "cart_item list" "error + money"
  | Charge money string "error + string"
  | ShipOrder address "cart_item list" "error + string"
  | EmptyCart string "error option"
  | SendOrderConfirmation string order_result "error option"
  | HttpPost string string "error + nat"

text \<open>
  The collaborators. Each answer may depend on the arguments and on everything that
  happened before in the request (the events so far), so a service may answer the same
  call differently the second time. \<open>json_Unmarshal\<close> and \<open>json_Marshal\<close> are the two uses
  of \<^verbatim>\<open>encoding/json\<close>, which are pure.
\<close>

record env =
  uuid_NewUUID :: "event list \<Rightarrow> error + string"
  cart_GetCart :: "event list \<Rightarrow> string \<Rightarrow> error + cart_item list"
  cart_EmptyCart :: "event list \<Rightarrow> string \<Rightarrow> error option"
  catalog_GetProduct :: "event list \<Rightarrow> string \<Rightarrow> error + money"
  currency_Convert :: "event list \<Rightarrow> money \<Rightarrow> string \<Rightarrow> error + money"
  shipping_GetQuote :: "event list \<Rightarrow> address \<Rightarrow> cart_item list \<Rightarrow> error + money"
  shipping_ShipOrder :: "event list \<Rightarrow> address \<Rightarrow> cart_item list \<Rightarrow> error + string"
  payment_Charge :: "event list \<Rightarrow> money \<Rightarrow> string \<Rightarrow> error + string"
  email_SendOrderConfirmation :: "event list \<Rightarrow> string \<Rightarrow> order_result \<Rightarrow> error option"
  http_Get :: "event list \<Rightarrow> string \<Rightarrow> http_get_result"
  http_Post :: "event list \<Rightarrow> string \<Rightarrow> string \<Rightarrow> error + nat"
  json_Unmarshal :: "string \<Rightarrow> error + response"
  json_Marshal :: "ExternalOrderData \<Rightarrow> error + string"

datatype prep_items_result =
    ItemsPanic panic
  | ItemsErr error bool
  | ItemsOk "order_item list" bool

datatype prep_result =
    PrepPanic panic
  | PrepErr error bool
  | PrepOk order_prep bool

datatype place_order_outcome =
    PlaceOrderPanic panic
  | PlaceOrderError grpc_status
  | PlaceOrderOk place_order_response

section \<open>Checkout service: operations\<close>

text \<open>\<^verbatim>\<open>strings.Split(s, sep)\<close> for a one-byte separator: the pieces between the
  separators, a single piece (the whole string) when there is none.\<close>

fun Split :: "string \<Rightarrow> char \<Rightarrow> string list" where
  "Split [] sep = [[]]"
| "Split (c # cs) sep =
     (if c = sep then [] # Split cs sep
      else (c # hd (Split cs sep)) # tl (Split cs sep))"

text \<open>The reserved store id of the internal catalogue.\<close>

definition internalStore :: string where
  "internalStore = ''ONBQ''"

text \<open>The segment of a product id before its first \<open>:\<close> (the element \<^verbatim>\<open>s[0]\<close>).\<close>

definition storePrefix :: "string \<Rightarrow> string" where
  "storePrefix productId = hd (Split productId CHR '':'')"

definition getUserCart :: "env \<Rightarrow> string \<Rightarrow> event list \<Rightarrow> (error + cart_item list) \<times> event list" where
  "getUserCart e userID tr =
     (let r = cart_GetCart e tr userID; tr1 = tr @ [GetCart userID r]
      in case r of
           Inl err \<Rightarrow> (Inl (Errorf ''failed to get user cart during checkout: %+v'' [ArgErr err]), tr1)
         | Inr items \<Rightarrow> (Inr items, tr1))"

definition emptyUserCart :: "env \<Rightarrow> string \<Rightarrow> event list \<Rightarrow> error option \<times> event list" where
  "emptyUserCart e userID tr =
     (let r = cart_EmptyCart e tr userID; tr1 = tr @ [EmptyCart userID r]
      in case r of
           Some err \<Rightarrow> (Some (Errorf ''failed to empty user cart during checkout: %+v'' [ArgErr err]), tr1)
         | None \<Rightarrow> (None, tr1))"

definition quoteShipping ::
  "env \<Rightarrow> address \<Rightarrow> cart_item list \<Rightarrow> event list \<Rightarrow> (error + money) \<times> event list" where
  "quoteShipping e addr items tr =
     (let r = shipping_GetQuote e tr addr items; tr1 = tr @ [GetQuote addr items r]
      in case r of
           Inl err \<Rightarrow> (Inl (Errorf ''failed to get shipping quote: %+v'' [ArgErr err]), tr1)
         | Inr costUsd \<Rightarrow> (Inr costUsd, tr1))"

definition convertCurrency ::
  "env \<Rightarrow> money \<Rightarrow> string \<Rightarrow> event list \<Rightarrow> (error + money) \<times> event list" where
  "convertCurrency e from toCurrency tr =
     (let r = currency_Convert e tr from toCurrency; tr1 = tr @ [Convert from toCurrency r]
      in case r of
           Inl err \<Rightarrow> (Inl (Errorf ''failed to convert currency: %+v'' [ArgErr err]), tr1)
         | Inr result \<Rightarrow> (Inr result, tr1))"

definition chargeCard ::
  "env \<Rightarrow> money \<Rightarrow> string \<Rightarrow> event list \<Rightarrow> (error + string) \<times> event list" where
  "chargeCard e amount paymentInfo tr =
     (let r = payment_Charge e tr amount paymentInfo; tr1 = tr @ [Charge amount paymentInfo r]
      in case r of
           Inl err \<Rightarrow> (Inl (Errorf ''could not charge the card: %+v'' [ArgErr err]), tr1)
         | Inr transactionId \<Rightarrow> (Inr transactionId, tr1))"

definition sendOrderConfirmation ::
  "env \<Rightarrow> string \<Rightarrow> order_result \<Rightarrow> event list \<Rightarrow> error option \<times> event list" where
  "sendOrderConfirmation e email ord tr =
     (let r = email_SendOrderConfirmation e tr email ord
      in (r, tr @ [SendOrderConfirmation email ord r]))"

definition shipOrder ::
  "env \<Rightarrow> address \<Rightarrow> cart_item list \<Rightarrow> event list \<Rightarrow> (error + string) \<times> event list" where
  "shipOrder e addr items tr =
     (let r = shipping_ShipOrder e tr addr items; tr1 = tr @ [ShipOrder addr items r]
      in case r of
           Inl err \<Rightarrow> (Inl (Errorf ''shipment failed: %+v'' [ArgErr err]), tr1)
         | Inr trackingId \<Rightarrow> (Inr trackingId, tr1))"

text \<open>
  \<^verbatim>\<open>getExternalProduct\<close>: the existence check of the marketplace bridge. It returns the
  pair \<open>(exists, err)\<close>. The endpoint is printed, the GET is sent, the body is read and
  decoded; the three failures print the error and return \<open>false\<close> with a wrapped error.
\<close>

definition productEndpoint :: "string \<Rightarrow> string" where
  "productEndpoint ident = ''http://34.88.158.12:9090/product/'' @ ident"

definition getExternalProduct ::
  "env \<Rightarrow> string \<Rightarrow> event list \<Rightarrow> (bool \<times> error option) \<times> event list" where
  "getExternalProduct e ident tr =
     (let enpoint = productEndpoint ident;
          tr1 = tr @ [Println [ArgStr enpoint]];
          r = http_Get e tr1 enpoint;
          tr2 = tr1 @ [HttpGet enpoint r]
      in case r of
           TransportError err \<Rightarrow>
             ((False, Some (Errorf ''error sending request: %+v'' [ArgErr err])),
              tr2 @ [Println [ArgErr err]])
         | ReadError err \<Rightarrow>
             ((False, Some (Errorf ''error reading response: %+v'' [ArgErr err])),
              tr2 @ [Println [ArgErr err]])
         | Body body \<Rightarrow>
             (case json_Unmarshal e body of
                Inl err \<Rightarrow>
                  ((False, Some (Errorf ''error when unmarshal response: %+v'' [ArgErr err])),
                   tr2 @ [Println [ArgErr err]])
              | Inr responseJson \<Rightarrow>
                  if Status responseJson = ''Success'' then ((True, None), tr2)
                  else ((False, None), tr2)))"

text \<open>
  One iteration of the loop of \<^verbatim>\<open>prepOrderItems\<close>, for one cart line: the product id is
  split at \<open>:\<close> and printed; \<^verbatim>\<open>s[1]\<close> is read (and discarded), which panics when the id
  has no \<open>:\<close>; a store other than the internal one is checked with the marketplace; then
  the catalogue price is fetched and converted. The result is the order item and the new
  value of \<^verbatim>\<open>isExternal\<close>, or the early return.
\<close>

datatype line_result =
    LinePanic panic
  | LineErr error bool
  | LineOk order_item bool

definition errOrNil :: "error option \<Rightarrow> fmt_arg" where
  "errOrNil r = (case r of None \<Rightarrow> ArgNil | Some err \<Rightarrow> ArgErr err)"

definition prepOrderItem ::
  "env \<Rightarrow> string \<Rightarrow> cart_item \<Rightarrow> bool \<Rightarrow> event list \<Rightarrow> line_result \<times> event list" where
  "prepOrderItem e userCurrency item isExternal tr =
     (let s = Split (ProductId item) CHR '':'';
          tr1 = tr @ [Println [ArgStrs s]]
      in if \<not> 1 < length s then (LinePanic (IndexOutOfRange 1 (length s)), tr1)
         else
           let store = s ! 0;
               (abort, isExternal1, tr2) =
                 (if store \<noteq> ''ONBQ'' then
                    (case getExternalProduct e (ProductId item) tr1 of
                       ((b, err), t) \<Rightarrow>
                         (err \<noteq> None \<and> \<not> b, True,
                          t @ [Println [ArgBool b], Println [errOrNil err]]))
                  else (False, isExternal, tr1))
           in if abort then
                (LineErr (Errorf ''failed to get external product #%q'' [ArgStr (ProductId item)])
                   isExternal1, tr2)
              else
                let r = catalog_GetProduct e tr2 (ProductId item);
                    tr3 = tr2 @ [GetProduct (ProductId item) r]
                in case r of
                     Inl err \<Rightarrow>
                       (LineErr (Errorf ''failed to get product #%q'' [ArgStr (ProductId item)])
                          isExternal1, tr3)
                   | Inr priceUsd \<Rightarrow>
                       (case convertCurrency e priceUsd userCurrency tr3 of
                          (Inl err, tr4) \<Rightarrow>
                            (LineErr (Errorf ''failed to convert price of %q to %s''
                                        [ArgStr (ProductId item), ArgStr userCurrency])
                               isExternal1, tr4)
                        | (Inr price, tr4) \<Rightarrow>
                            (LineOk \<lparr>Item = item, Cost = price\<rparr> isExternal1, tr4)))"

text \<open>
  \<^verbatim>\<open>prepOrderItems\<close>: the loop over the cart. The Go code allocates \<^verbatim>\<open>out\<close> with one
  slot per cart line and fills slot \<open>i\<close> in iteration \<open>i\<close>; here the items of the lines
  done so far are the list \<open>out\<close>, extended at the end.
\<close>

fun prepOrderItems_loop ::
  "env \<Rightarrow> string \<Rightarrow> cart_item list \<Rightarrow> order_item list \<Rightarrow> bool \<Rightarrow> event list
     \<Rightarrow> prep_items_result \<times> event list" where
  "prepOrderItems_loop e userCurrency [] out isExternal tr = (ItemsOk out isExternal, tr)"
| "prepOrderItems_loop e userCurrency (item # items) out isExternal tr =
     (case prepOrderItem e userCurrency item isExternal tr of
        (LinePanic p, tr1) \<Rightarrow> (ItemsPanic p, tr1)
      | (LineErr err isExternal1, tr1) \<Rightarrow> (ItemsErr err isExternal1, tr1)
      | (LineOk oi isExternal1, tr1) \<Rightarrow>
          prepOrderItems_loop e userCurrency items (out @ [oi]) isExternal1 tr1)"

definition prepOrderItems ::
  "env \<Rightarrow> cart_item list \<Rightarrow> string \<Rightarrow> event list \<Rightarrow> prep_items_result \<times> event list" where
  "prepOrderItems e items userCurrency tr = prepOrderItems_loop e userCurrency items [] False tr"

definition prepareOrderItemsAndShippingQuoteFromCart ::
  "env \<Rightarrow> string \<Rightarrow> string \<Rightarrow> address \<Rightarrow> event list \<Rightarrow> prep_result \<times> event list" where
  "prepareOrderItemsAndShippingQuoteFromCart e userID userCurrency addr tr =
     (case getUserCart e userID tr of
        (Inl err, tr1) \<Rightarrow> (PrepErr (Errorf ''cart failure: %+v'' [ArgErr err]) False, tr1)
      | (Inr cart, tr1) \<Rightarrow>
          (case prepOrderItems e cart userCurrency tr1 of
             (ItemsPanic p, tr2) \<Rightarrow> (PrepPanic p, tr2)
           | (ItemsErr err isExternal, tr2) \<Rightarrow>
               (PrepErr (Errorf ''failed to prepare order: %+v'' [ArgErr err]) isExternal, tr2)
           | (ItemsOk ois isExternal, tr2) \<Rightarrow>
               (case quoteShipping e addr cart tr2 of
                  (Inl err, tr3) \<Rightarrow>
                    (PrepErr (Errorf ''shipping quote failure: %+v'' [ArgErr err]) isExternal, tr3)
                | (Inr shippingUSD, tr3) \<Rightarrow>
                    (case convertCurrency e shippingUSD userCurrency tr3 of
                       (Inl err, tr4) \<Rightarrow>
                         (PrepErr (Errorf ''failed to convert shipping cost to currency: %+v''
                                     [ArgErr err]) isExternal, tr4)
                     | (Inr shippingPrice, tr4) \<Rightarrow>
                         (PrepOk \<lparr>orderItems = ois, cartItems = cart,
                                  shippingCostLocalized = shippingPrice\<rparr> isExternal, tr4)))))"

text \<open>
  \<^verbatim>\<open>postExternalOrder\<close>: the order relay. The loop keeps the items whose store is not the
  internal one; like the pricing loop it reads \<^verbatim>\<open>s[1]\<close> of the split product id. The
  payload is encoded and posted; every failure is printed and nothing is returned.
  \<^verbatim>\<open>http.NewRequest\<close> is called with a constant method and URL and cannot fail.
\<close>

definition externalItem :: "order_item \<Rightarrow> ExternalOrderItem" where
  "externalItem it =
     \<lparr>EI_ID = ProductId (Item it),
      EI_Cost = \<lparr>EM_CurrencyCode = CurrencyCode (Cost it), EM_Units = Units (Cost it),
                 EM_Nanos = Nanos (Cost it)\<rparr>\<rparr>"

fun externalItems_loop ::
  "order_item list \<Rightarrow> ExternalOrderItem list \<Rightarrow> panic + ExternalOrderItem list" where
  "externalItems_loop [] externalItems = Inr externalItems"
| "externalItems_loop (it # its) externalItems =
     (let s = Split (ProductId (Item it)) CHR '':''
      in if \<not> 1 < length s then Inl (IndexOutOfRange 1 (length s))
         else if s ! 0 \<noteq> ''ONBQ'' then externalItems_loop its (externalItems @ [externalItem it])
         else externalItems_loop its externalItems)"

definition externalOrder :: "order_result \<Rightarrow> ExternalOrderItem list \<Rightarrow> ExternalOrderData" where
  "externalOrder ord externalItems =
     \<lparr>ED_OrderId = OrderId ord,
      ED_ShippingTrackingId = ShippingTrackingId ord,
      ED_ShippingCost =
        \<lparr>EM_CurrencyCode = CurrencyCode (ShippingCost ord), EM_Units = Units (ShippingCost ord),
         EM_Nanos = Nanos (ShippingCost ord)\<rparr>,
      ED_ShippingAddress =
        \<lparr>EA_StreetAddress = StreetAddress (ShippingAddress ord),
         EA_City = City (ShippingAddress ord),
         EA_State = State (ShippingAddress ord),
         EA_Country = Country (ShippingAddress ord),
         EA_ZipCode = ZipCode (ShippingAddress ord)\<rparr>,
      ED_Items = externalItems\<rparr>"

definition orderEndpoint :: string where
  "orderEndpoint = ''http://34.88.158.12:9090/order''"

definition postExternalOrder :: "env \<Rightarrow> order_result \<Rightarrow> event list \<Rightarrow> panic option \<times> event list" where
  "postExternalOrder e ord tr =
     (case externalItems_loop (Items ord) [] of
        Inl p \<Rightarrow> (Some p, tr)
      | Inr externalItems \<Rightarrow>
          (case json_Marshal e (externalOrder ord externalItems) of
             Inl err \<Rightarrow> (None, tr @ [Println [ArgStr ''Error encoding JSON:'', ArgErr err]])
           | Inr jsonData \<Rightarrow>
               (let r = http_Post e tr orderEndpoint jsonData;
                    tr1 = tr @ [HttpPost orderEndpoint jsonData r]
                in case r of
                     Inl err \<Rightarrow> (None, tr1 @ [Println [ArgStr ''Error sending request:'', ArgErr err]])
                   | Inr statusCode \<Rightarrow>
                       (None, tr1 @ [Println [ArgStr ''Response Status:'', ArgNat statusCode]]))))"

text \<open>The conversion \<^verbatim>\<open>uint32(q)\<close> of an \<^verbatim>\<open>int32\<close>: the value modulo \<open>2^32\<close>.\<close>

definition uint32 :: "int \<Rightarrow> nat" where
  "uint32 q = nat (q mod 2 ^ 32)"

text \<open>
  Modelled from the spec: \<^verbatim>\<open>money.Must\<close> (not among the sources). A currency mismatch
  is fatal to the operation attempting it: \<open>Must\<close> hands a sum through and panics on the
  error.
\<close>

definition Must :: "money_error + money \<Rightarrow> panic + money" where
  "Must r = (case r of Inl err \<Rightarrow> Inl (MustPanic err) | Inr v \<Rightarrow> Inr v)"

text \<open>
  The computation of the total in \<^verbatim>\<open>PlaceOrder\<close>: starting from zero in the user's
  currency, the shipping cost is added, then for each order item its cost times its
  quantity (the variable \<^verbatim>\<open>total\<close> of the Go code is \<open>tot\<close>).
\<close>

fun total_loop :: "money \<Rightarrow> order_item list \<Rightarrow> panic + money" where
  "total_loop tot [] = Inr tot"
| "total_loop tot (it # its) =
     (let multPrice = MultiplySlow (Cost it) (uint32 (Quantity (Item it)))
      in case Must (Sum tot multPrice) of
           Inl p \<Rightarrow> Inl p
         | Inr tot1 \<Rightarrow> total_loop tot1 its)"

definition orderTotal :: "string \<Rightarrow> order_prep \<Rightarrow> panic + money" where
  "orderTotal userCurrency prep =
     (let tot = \<lparr>CurrencyCode = userCurrency, Units = 0, Nanos = 0\<rparr>
      in case Must (Sum tot (shippingCostLocalized prep)) of
           Inl p \<Rightarrow> Inl p
         | Inr tot1 \<Rightarrow> total_loop tot1 (orderItems prep))"

text \<open>
  \<^verbatim>\<open>PlaceOrder\<close>. The result is the panic, the status error or the response, together
  with the events of the request in order.
\<close>

definition PlaceOrder :: "env \<Rightarrow> place_order_request \<Rightarrow> place_order_outcome \<times> event list" where
  "PlaceOrder e req =
     (let tr0 = [Log Info ''[PlaceOrder] user_id=%q user_currency=%q''
                   [ArgStr (UserId req), ArgStr (UserCurrency req)]];
          u = uuid_NewUUID e tr0;
          tr1 = tr0 @ [NewUUID u]
      in case u of
           Inl err \<Rightarrow>
             (PlaceOrderError (StatusErrorf Internal (Literal ''failed to generate order uuid'') []), tr1)
         | Inr orderID \<Rightarrow>
       (case prepareOrderItemsAndShippingQuoteFromCart e (UserId req) (UserCurrency req)
               (Address req) tr1 of
          (PrepPanic p, tr2) \<Rightarrow> (PlaceOrderPanic p, tr2)
        | (PrepErr err isExternal, tr2) \<Rightarrow>
            (PlaceOrderError (StatusErrorf Internal (ErrorText err) []), tr2)
        | (PrepOk prep isExternal, tr2) \<Rightarrow>
       (case orderTotal (UserCurrency req) prep of
          Inl p \<Rightarrow> (PlaceOrderPanic p, tr2)
        | Inr tot \<Rightarrow>
       (case chargeCard e tot (CreditCard req) tr2 of
          (Inl err, tr3) \<Rightarrow>
            (PlaceOrderError
               (StatusErrorf Internal (Literal ''failed to charge card: %+v'') [ArgErr err]), tr3)
        | (Inr txID, tr3) \<Rightarrow>
       (let tr4 = tr3 @ [Log Info ''payment went through (transaction_id: %s)'' [ArgStr txID]]
        in case shipOrder e (Address req) (cartItems prep) tr4 of
          (Inl err, tr5) \<Rightarrow>
            (PlaceOrderError
               (StatusErrorf Unavailable (Literal ''shipping error: %+v'') [ArgErr err]), tr5)
        | (Inr shippingTrackingID, tr5) \<Rightarrow>
       (case emptyUserCart e (UserId req) tr5 of
          (discarded, tr6) \<Rightarrow>
       (let orderResult =
              \<lparr>OrderId = orderID,
               ShippingTrackingId = shippingTrackingID,
               ShippingCost = shippingCostLocalized prep,
               ShippingAddress = Address req,
               Items = orderItems prep\<rparr>
        in case sendOrderConfirmation e (Email req) orderResult tr6 of
          (sent, tr7) \<Rightarrow>
       (let tr8 = tr7 @
              [case sent of
                 Some err \<Rightarrow> Log Warn ''failed to send order confirmation to %q: %+v''
                              [ArgStr (Email req), ArgErr err]
               | None \<Rightarrow> Log Info ''order confirmation email sent to %q'' [ArgStr (Email req)]];
            resp = \<lparr>Order = orderResult\<rparr>
        in if isExternal then
             (case postExternalOrder e orderResult tr8 of
                (Some p, tr9) \<Rightarrow> (PlaceOrderPanic p, tr9)
              | (None, tr9) \<Rightarrow> (PlaceOrderOk resp, tr9))
           else (PlaceOrderOk resp, tr8)))))))))"

section \<open>Marketplace API service\<close>

text \<open>
  \<^verbatim>\<open>apiservice/handlers.go\<close>: the shop map and the existence endpoint. The handler's
  effect is what it does to the \<^verbatim>\<open>http.ResponseWriter\<close>: headers added, the status code
  set, the bodies written. Its diagnostic lines on standard output are left out. The
  working directory, the file \<^verbatim>\<open>shops.json\<close> and the two uses of \<^verbatim>\<open>encoding/json\<close>
  are inputs.
\<close>

record Shop =
  Name :: string
  ID :: string

record files =
  os_Getwd :: "error + string"
  ioutil_ReadFile :: "string \<Rightarrow> error + string"
  json_UnmarshalShops :: "string \<Rightarrow> error + Shop list"

record response_writer =
  W_Header :: "(string \<times> string) list"
  W_StatusCode :: "nat option"
  W_Body :: "string list"

definition newWriter :: response_writer where
  "newWriter = \<lparr>W_Header = [], W_StatusCode = None, W_Body = []\<rparr>"

definition StatusFound :: nat where
  "StatusFound = 302"

definition StatusBadRequest :: nat where
  "StatusBadRequest = 400"

fun shopMap_loop :: "Shop list \<Rightarrow> (string \<rightharpoonup> Shop) \<Rightarrow> (string \<rightharpoonup> Shop)" where
  "shopMap_loop [] shopMap = shopMap"
| "shopMap_loop (v # vs) shopMap = shopMap_loop vs (shopMap(ID v \<mapsto> v))"

definition getShopMap :: "files \<Rightarrow> error + (string \<rightharpoonup> Shop)" where
  "getShopMap fs =
     (case os_Getwd fs of
        Inl err \<Rightarrow> Inl err
      | Inr curdir \<Rightarrow>
          (case ioutil_ReadFile fs ''shops.json'' of
             Inl err \<Rightarrow> Inl err
           | Inr fileBytes \<Rightarrow>
               (case json_UnmarshalShops fs fileBytes of
                  Inl err \<Rightarrow> Inl err
                | Inr shops \<Rightarrow> Inr (shopMap_loop shops Map.empty))))"

text \<open>The envelope the handler writes for a known shop.\<close>

definition successResponse :: response where
  "successResponse =
     \<lparr>Status = ''OK'', Message = ''Request processed successfully.'', Data_Result = ''Success''\<rparr>"

text \<open>\<^verbatim>\<open>externalProductHandler\<close>; \<open>ident\<close> is the route variable \<^verbatim>\<open>id\<close>, \<open>marshal\<close> is
  \<^verbatim>\<open>json.Marshal\<close> on the envelope.\<close>

definition externalProductHandler ::
  "files \<Rightarrow> (response \<Rightarrow> error + string) \<Rightarrow> response_writer \<Rightarrow> string \<Rightarrow> response_writer" where
  "externalProductHandler fs marshal w ident =
     (case getShopMap fs of
        Inl err \<Rightarrow> w
      | Inr shops \<Rightarrow>
          if ident = '''' then w
          else (case shops ident of
                  Some sh \<Rightarrow>
                    (let w1 = w\<lparr>W_Header := W_Header w @ [(''content-type'', ''application/json'')]\<rparr>;
                         w2 = w1\<lparr>W_StatusCode := Some StatusFound\<rparr>
                     in case marshal successResponse of
                          Inl err \<Rightarrow> w2
                        | Inr jsonData \<Rightarrow> w2\<lparr>W_Body := W_Body w2 @ [jsonData]\<rparr>)
                | None \<Rightarrow> w\<lparr>W_StatusCode := Some StatusBadRequest\<rparr>))"

section \<open>Example collaborators\<close>

text \<open>
  A concrete set of collaborators for running the model: every product costs 10 USD,
  shipping costs 5 USD, the currency service hands the amount back unchanged, and every
  call succeeds. The marketplace answers with the envelope of its own handler.
\<close>

definition usd :: "int \<Rightarrow> money" where
  "usd n = \<lparr>CurrencyCode = ''USD'', Units = n, Nanos = 0\<rparr>"

definition exampleAddress :: address where
  "exampleAddress =
     \<lparr>StreetAddress = ''1 Main St'', City = ''Springfield'', State = ''IL'', Country = ''US'',
      ZipCode = 62701\<rparr>"

definition exampleRequest :: place_order_request where
  "exampleRequest =
     \<lparr>UserId = ''u1'', UserCurrency = ''USD'', Address = exampleAddress,
      Email = ''u1@example.com'', CreditCard = ''4111''\<rparr>"

definition exampleEnv :: "cart_item list \<Rightarrow> env" where
  "exampleEnv cart =
     \<lparr>uuid_NewUUID = (\<lambda>tr. Inr ''order-1''),
      cart_GetCart = (\<lambda>tr userID. Inr cart),
      cart_EmptyCart = (\<lambda>tr userID. None),
      catalog_GetProduct = (\<lambda>tr ident. Inr (usd 10)),
      currency_Convert = (\<lambda>tr from toCode. Inr from),
      shipping_GetQuote = (\<lambda>tr addr items. Inr (usd 5)),
      shipping_ShipOrder = (\<lambda>tr addr items. Inr ''track-1''),
      payment_Charge = (\<lambda>tr amount paymentInfo. Inr ''tx-1''),
      email_SendOrderConfirmation = (\<lambda>tr email ord. None),
      http_Get = (\<lambda>tr url. Body ''envelope''),
      http_Post = (\<lambda>tr url body. Inr 200),
      json_Unmarshal = (\<lambda>body. if body = ''envelope'' then Inr successResponse
                                else Inl (Opaque ''invalid character'')),
      json_Marshal = (\<lambda>d. Inr ''order'')\<rparr>"

definition exampleFiles :: files where
  "exampleFiles =
     \<lparr>os_Getwd = Inr ''/srv'',
      ioutil_ReadFile = (\<lambda>name. Inr ''shops''),
      json_UnmarshalShops = (\<lambda>bytes. Inr [\<lparr>Name = ''Shop One'', ID = ''S1''\<rparr>])\<rparr>"

definition exampleMarshal :: "response \<Rightarrow> error + string" where
  "exampleMarshal r = (if r = successResponse then Inr ''envelope'' else Inr ''other'')"

text \<open>Event classifiers.\<close>

fun isCharge :: "event \<Rightarrow> bool" where
  "isCharge (Charge amount paymentInfo r) = True"
| "isCharge ev = False"

fun isHttpGet :: "event \<Rightarrow> bool" where
  "isHttpGet (HttpGet url r) = True"
| "isHttpGet ev = False"

fun isHttpPost :: "event \<Rightarrow> bool" where
  "isHttpPost (HttpPost url body r) = True"
| "isHttpPost ev = False"

fun isLog :: "event \<Rightarrow> bool" where
  "isLog (Log lvl fmt args) = True"
| "isLog ev = False"

text \<open>The events the pricing loop can emit: lines on standard output, the marketplace
  lookup, the catalogue lookup and the currency conversion.\<close>

fun pricingEvent :: "event \<Rightarrow> bool" where
  "pricingEvent (Println args) = True"
| "pricingEvent (HttpGet url r) = True"
| "pricingEvent (GetProduct ident r) = True"
| "pricingEvent (Convert from toCode r) = True"
| "pricingEvent ev = False"

text \<open>Variants of the example in which one collaborator fails.\<close>

definition quoteFailsEnv :: "cart_item list \<Rightarrow> env" where
  "quoteFailsEnv cart =
     (exampleEnv cart)\<lparr>shipping_GetQuote := (\<lambda>tr addr items. Inl (Opaque ''shipping down''))\<rparr>"

definition emptyCartFailsEnv :: "cart_item list \<Rightarrow> env" where
  "emptyCartFailsEnv cart =
     (exampleEnv cart)\<lparr>cart_EmptyCart := (\<lambda>tr userID. Some (Opaque ''cart down''))\<rparr>"

definition marketplaceDownEnv :: "cart_item list \<Rightarrow> env" where
  "marketplaceDownEnv cart =
     (exampleEnv cart)\<lparr>http_Get := (\<lambda>tr url. TransportError (Opaque ''connection refused''))\<rparr>"

definition marketplaceSuccessEnv :: "cart_item list \<Rightarrow> env" where
  "marketplaceSuccessEnv cart =
     (exampleEnv cart)\<lparr>json_Unmarshal :=
        (\<lambda>body. Inr \<lparr>Status = ''Success'', Message = ''found'', Data_Result = ''Success''\<rparr>)\<rparr>"

text \<open>The answer the marketplace gives to the GET of the existence check, when the check
  starts after the events \<open>tr\<close>.\<close>

definition existenceAnswer :: "env \<Rightarrow> string \<Rightarrow> event list \<Rightarrow> http_get_result" where
  "existenceAnswer e ident tr =
     http_Get e (tr @ [Println [ArgStr (productEndpoint ident)]]) (productEndpoint ident)"

section \<open>Money arithmetic: sum\<close>

lemma carry_value:
  assumes "\<bar>n\<bar> < 2 * nanosMod" and "carry (u, n) = (u', n')"
  shows "u' * nanosMod + n' = u * nanosMod + n \<and> \<bar>n'\<bar> < nanosMod"
proof (cases "\<bar>n\<bar> \<ge> nanosMod")
  case False
  with assms(2) show ?thesis by (simp add: carry_def)
next
  case True
  have pos: "0 < nanosMod" by (simp add: nanosMod_def)
  have m: "\<bar>n\<bar> mod nanosMod = \<bar>n\<bar> - nanosMod"
  proof -
    have "\<bar>n\<bar> mod nanosMod = (\<bar>n\<bar> - nanosMod) mod nanosMod"
      using True by (simp add: mod_pos_geq)
    also have "\<dots> = \<bar>n\<bar> - nanosMod"
      using True assms(1) by (intro mod_pos_pos_trivial) linarith+
    finally show ?thesis .
  qed
  from assms(2) True have u': "u' = u + sgn n" and n': "n' = sgn n * (\<bar>n\<bar> - nanosMod)"
    by (simp_all add: carry_def m)
  show ?thesis
  proof (cases "n < 0")
    case True
    with u' n' have e: "u' = u - 1" "n' = n + nanosMod" by simp_all
    have "(u - 1) * nanosMod + (n + nanosMod) = u * nanosMod + n"
      by (simp add: left_diff_distrib)
    moreover have "\<bar>n + nanosMod\<bar> < nanosMod"
      using True assms(1) \<open>\<bar>n\<bar> \<ge> nanosMod\<close> by linarith
    ultimately show ?thesis using e by simp
  next
    case False
    with \<open>\<bar>n\<bar> \<ge> nanosMod\<close> pos have "n > 0" by linarith
    with u' n' have e: "u' = u + 1" "n' = n - nanosMod" by simp_all
    have "(u + 1) * nanosMod + (n - nanosMod) = u * nanosMod + n"
      by (simp add: distrib_right)
    moreover have "\<bar>n - nanosMod\<bar> < nanosMod"
      using \<open>n > 0\<close> assms(1) \<open>\<bar>n\<bar> \<ge> nanosMod\<close> by linarith
    ultimately show ?thesis using e by simp
  qed
qed

lemma borrow_value:
  assumes "borrow (u, n) = (u', n')"
  shows "u' * nanosMod + n' = u * nanosMod + n"
  using assms by (auto simp: borrow_def algebra_simps split: if_splits)

lemma borrow_invariant:
  assumes "\<bar>n\<bar> < nanosMod" and "borrow (u, n) = (u', n')"
  shows "\<bar>n'\<bar> < nanosMod \<and> \<not> (u' > 0 \<and> n' < 0) \<and> \<not> (u' < 0 \<and> n' > 0)"
proof -
  have pos: "0 < nanosMod" by (simp add: nanosMod_def)
  consider "u > 0 \<and> n < 0" | "\<not> (u > 0 \<and> n < 0)" "u < 0 \<and> n > 0"
    | "\<not> (u > 0 \<and> n < 0)" "\<not> (u < 0 \<and> n > 0)" by blast
  then show ?thesis
  proof cases
    case 1
    with assms(2) have "u' = u - 1" "n' = n + nanosMod" by (simp_all add: borrow_def)
    with 1 assms(1) pos show ?thesis by linarith
  next
    case 2
    with assms(2) have "u' = u + 1" "n' = n - nanosMod" by (simp_all add: borrow_def)
    with 2 assms(1) pos show ?thesis by linarith
  next
    case 3
    with assms(2) have "u' = u" "n' = n" by (simp_all add: borrow_def)
    with 3 assms(1) show ?thesis by linarith
  qed
qed

lemma normalize_correct:
  assumes "\<bar>n\<bar> < 2 * nanosMod" and "normalize (u, n) = (u', n')"
  shows "u' * nanosMod + n' = u * nanosMod + n"
    and "\<bar>n'\<bar> < nanosMod" and "\<not> (u' > 0 \<and> n' < 0)" and "\<not> (u' < 0 \<and> n' > 0)"
proof -
  obtain u1 n1 where c: "carry (u, n) = (u1, n1)" by (cases "carry (u, n)")
  with assms(2) have b: "borrow (u1, n1) = (u', n')" by (simp add: normalize_def)
  note cv = carry_value [OF assms(1) c]
  show "u' * nanosMod + n' = u * nanosMod + n"
    using borrow_value [OF b] cv by simp
  from cv have r: "\<bar>n1\<bar> < nanosMod" by simp
  show "\<bar>n'\<bar> < nanosMod" "\<not> (u' > 0 \<and> n' < 0)" "\<not> (u' < 0 \<and> n' > 0)"
    using borrow_invariant [OF r b] by simp_all
qed

text \<open>
  Claim C2. For all amounts \<open>a\<close> and \<open>b\<close> of the data model (each satisfying the money
  invariant) with equal currency codes, \<open>Sum\<close> returns a result \<open>r\<close> whose value is the sum
  of the two values, and \<open>r\<close> satisfies the invariant again: its nanos are below \<open>10^9\<close> in
  absolute value and agree in sign with its units.
\<close>

theorem Sum_value_and_invariant:
  assumes "CurrencyCode a = CurrencyCode b"
    and "money_invariant a" and "money_invariant b"
  shows "\<exists>r. Sum a b = Inr r
           \<and> money_value r = money_value a + money_value b
           \<and> 0 \<le> \<bar>Nanos r\<bar> \<and> \<bar>Nanos r\<bar> < 1000000000
           \<and> signs_agree r \<and> money_invariant r"
proof -
  obtain u n where nz: "normalize (Units a + Units b, Nanos a + Nanos b) = (u, n)"
    by (cases "normalize (Units a + Units b, Nanos a + Nanos b)")
  have "\<bar>Nanos a\<bar> < nanosMod" "\<bar>Nanos b\<bar> < nanosMod"
    using assms(2,3) by (simp_all add: money_invariant_def nanos_in_range_def)
  then have rng: "\<bar>Nanos a + Nanos b\<bar> < 2 * nanosMod" by linarith
  note nc = normalize_correct [OF rng nz]
  let ?r = "\<lparr>CurrencyCode = CurrencyCode a, Units = u, Nanos = n\<rparr>"
  have s: "Sum a b = Inr ?r"
    using assms(1) nz by (simp add: Sum_def)
  have v: "money_value ?r = money_value a + money_value b"
    using nc(1) by (simp add: money_value_def algebra_simps)
  have i: "\<bar>Nanos ?r\<bar> < nanosMod" "signs_agree ?r"
    using nc(2,3,4) by (simp_all add: signs_agree_def)
  have j: "\<bar>Nanos ?r\<bar> < 1000000000" using i(1) by (simp add: nanosMod_def)
  have k: "money_invariant ?r" using i by (simp add: money_invariant_def nanos_in_range_def)
  show ?thesis using s v j i(2) k by auto
qed

theorem Sum_value_and_invariant_witness:
  "Sum \<lparr>CurrencyCode = ''USD'', Units = 1, Nanos = 750000000\<rparr>
       \<lparr>CurrencyCode = ''USD'', Units = 2, Nanos = 750000000\<rparr>
     = Inr \<lparr>CurrencyCode = ''USD'', Units = 4, Nanos = 500000000\<rparr>
   \<and> money_invariant \<lparr>CurrencyCode = ''USD'', Units = 1, Nanos = 750000000\<rparr>
   \<and> money_invariant \<lparr>CurrencyCode = ''USD'', Units = 2, Nanos = 750000000\<rparr>
   \<and> money_value \<lparr>CurrencyCode = ''USD'', Units = 4, Nanos = 500000000\<rparr> = 4500000000"
  using Sum_value_and_invariant
    [of "\<lparr>CurrencyCode = ''USD'', Units = 1, Nanos = 750000000\<rparr>"
        "\<lparr>CurrencyCode = ''USD'', Units = 2, Nanos = 750000000\<rparr>"]
  by (simp add: Sum_def normalize_def carry_def borrow_def nanosMod_def money_value_def
      money_invariant_def nanos_in_range_def signs_agree_def)
section \<open>The marketplace bridge\<close>

lemma getExternalProduct_cases:
  "fst (getExternalProduct e ident tr) =
     (case existenceAnswer e ident tr of
        TransportError err \<Rightarrow> (False, Some (Errorf ''error sending request: %+v'' [ArgErr err]))
      | ReadError err \<Rightarrow> (False, Some (Errorf ''error reading response: %+v'' [ArgErr err]))
      | Body body \<Rightarrow>
          (case json_Unmarshal e body of
             Inl err \<Rightarrow> (False, Some (Errorf ''error when unmarshal response: %+v'' [ArgErr err]))
           | Inr r \<Rightarrow> (Status r = ''Success'', None)))"
  by (simp add: getExternalProduct_def existenceAnswer_def Let_def
      split: http_get_result.splits sum.splits)

text \<open>
  Claim C8. The existence check returns \<open>true\<close> exactly when the body of the HTTP answer
  decodes to an envelope whose status is \<open>Success\<close>. A transport failure, a failure to read
  the body and a failure to decode it each give \<open>false\<close> together with an error; a decoded
  envelope with any other status gives \<open>false\<close> and no error; \<open>true\<close> never comes with an
  error.
\<close>

theorem getExternalProduct_true_iff_status_Success:
  "(fst (fst (getExternalProduct e ident tr)) \<longleftrightarrow>
      (\<exists>body r. existenceAnswer e ident tr = Body body \<and> json_Unmarshal e body = Inr r
                 \<and> Status r = ''Success''))
   \<and> ((\<exists>err. existenceAnswer e ident tr = TransportError err
             \<or> existenceAnswer e ident tr = ReadError err
             \<or> (\<exists>body. existenceAnswer e ident tr = Body body \<and> json_Unmarshal e body = Inl err))
        \<longrightarrow> \<not> fst (fst (getExternalProduct e ident tr))
            \<and> snd (fst (getExternalProduct e ident tr)) \<noteq> None)
   \<and> (\<forall>body r. existenceAnswer e ident tr = Body body \<and> json_Unmarshal e body = Inr r
                 \<and> Status r \<noteq> ''Success''
        \<longrightarrow> fst (getExternalProduct e ident tr) = (False, None))
   \<and> (fst (fst (getExternalProduct e ident tr))
        \<longrightarrow> snd (fst (getExternalProduct e ident tr)) = None)"
  unfolding getExternalProduct_cases
  by (cases "existenceAnswer e ident tr")
     (auto split: sum.splits)

theorem getExternalProduct_true_iff_status_Success_witness:
  "existenceAnswer (marketplaceDownEnv []) ''EXT:1'' [] = TransportError (Opaque ''connection refused'')
   \<and> \<not> fst (fst (getExternalProduct (marketplaceDownEnv []) ''EXT:1'' []))
   \<and> snd (fst (getExternalProduct (marketplaceDownEnv []) ''EXT:1'' [])) \<noteq> None
   \<and> existenceAnswer (exampleEnv []) ''EXT:1'' [] = Body ''envelope''
   \<and> json_Unmarshal (exampleEnv []) ''envelope'' = Inr successResponse
   \<and> Status successResponse \<noteq> ''Success''
   \<and> fst (getExternalProduct (exampleEnv []) ''EXT:1'' []) = (False, None)
   \<and> existenceAnswer (marketplaceSuccessEnv []) ''EXT:1'' [] = Body ''envelope''
   \<and> fst (getExternalProduct (marketplaceSuccessEnv []) ''EXT:1'' []) = (True, None)"
proof -
  have a: "existenceAnswer (marketplaceDownEnv []) ''EXT:1'' [] = TransportError (Opaque ''connection refused'')"
    by (simp add: existenceAnswer_def marketplaceDownEnv_def exampleEnv_def)
  have b: "existenceAnswer (exampleEnv []) ''EXT:1'' [] = Body ''envelope''"
    "json_Unmarshal (exampleEnv []) ''envelope'' = Inr successResponse"
    "Status successResponse \<noteq> ''Success''"
    by (simp_all add: existenceAnswer_def exampleEnv_def successResponse_def)
  have c: "existenceAnswer (marketplaceSuccessEnv []) ''EXT:1'' [] = Body ''envelope''"
    "json_Unmarshal (marketplaceSuccessEnv []) ''envelope''
       = Inr \<lparr>Status = ''Success'', Message = ''found'', Data_Result = ''Success''\<rparr>"
    by (simp_all add: existenceAnswer_def marketplaceSuccessEnv_def exampleEnv_def)
  from a getExternalProduct_true_iff_status_Success [of "marketplaceDownEnv []" "''EXT:1''" "[]"]
  have 1: "\<not> fst (fst (getExternalProduct (marketplaceDownEnv []) ''EXT:1'' []))
      \<and> snd (fst (getExternalProduct (marketplaceDownEnv []) ''EXT:1'' [])) \<noteq> None"
    by blast
  from b getExternalProduct_true_iff_status_Success [of "exampleEnv []" "''EXT:1''" "[]"]
  have 2: "fst (getExternalProduct (exampleEnv []) ''EXT:1'' []) = (False, None)"
    by blast
  from c getExternalProduct_true_iff_status_Success [of "marketplaceSuccessEnv []" "''EXT:1''" "[]"]
  have 3: "fst (fst (getExternalProduct (marketplaceSuccessEnv []) ''EXT:1'' []))
      \<and> snd (fst (getExternalProduct (marketplaceSuccessEnv []) ''EXT:1'' [])) = None"
    by simp
  then have 3: "fst (getExternalProduct (marketplaceSuccessEnv []) ''EXT:1'' []) = (True, None)"
    by (simp add: prod_eq_iff)
  from a b c 1 2 3 show ?thesis by blast
qed

text \<open>
  Claim C10. For every shop id in the shop map of the marketplace, the envelope its
  existence endpoint writes has the top-level status \<open>OK\<close> and carries \<open>Success\<close> only in
  \<open>data.result\<close>: for a non-empty id the handler answers 302 with exactly that envelope, and
  it never writes anything else (for the empty id it returns before writing). The
  existence check of the checkout service, reading that envelope, therefore returns
  \<open>(false, nil)\<close>: it never reports existence against this handler. Here \<open>b\<close> is the
  encoding of the envelope, which the decoder of the checkout service reads back.
\<close>

theorem marketplace_envelope_never_reports_existence:
  assumes "getShopMap fs = Inr shops" and "shops ident = Some sh"
    and "marshal successResponse = Inr b" and "json_Unmarshal e b = Inr successResponse"
  shows "(ident \<noteq> '''' \<longrightarrow>
            externalProductHandler fs marshal newWriter ident =
              \<lparr>W_Header = [(''content-type'', ''application/json'')],
               W_StatusCode = Some 302, W_Body = [b]\<rparr>)
       \<and> set (W_Body (externalProductHandler fs marshal newWriter ident)) \<subseteq> {b}
       \<and> Status successResponse = ''OK'' \<and> Data_Result successResponse = ''Success''
       \<and> (\<forall>pid tr. existenceAnswer e pid tr = Body b \<longrightarrow>
             fst (getExternalProduct e pid tr) = (False, None))"
proof -
  have h: "ident \<noteq> '''' \<Longrightarrow> externalProductHandler fs marshal newWriter ident =
              \<lparr>W_Header = [(''content-type'', ''application/json'')],
               W_StatusCode = Some 302, W_Body = [b]\<rparr>"
    using assms(1,2,3)
    by (simp add: externalProductHandler_def newWriter_def StatusFound_def Let_def)
  have w: "set (W_Body (externalProductHandler fs marshal newWriter ident)) \<subseteq> {b}"
  proof (cases "ident = ''''")
    case True
    with assms(1) show ?thesis by (simp add: externalProductHandler_def newWriter_def)
  next
    case False
    with h show ?thesis by simp
  qed
  have s: "Status successResponse = ''OK''" "Data_Result successResponse = ''Success''"
    by (simp_all add: successResponse_def)
  have g: "fst (getExternalProduct e pid tr) = (False, None)"
    if "existenceAnswer e pid tr = Body b" for pid tr
    using that assms(4) by (simp add: getExternalProduct_cases successResponse_def)
  from h w s g show ?thesis by blast
qed

theorem marketplace_envelope_never_reports_existence_witness:
  "getShopMap exampleFiles = Inr (shopMap_loop [\<lparr>Name = ''Shop One'', ID = ''S1''\<rparr>] Map.empty)
   \<and> shopMap_loop [\<lparr>Name = ''Shop One'', ID = ''S1''\<rparr>] Map.empty ''S1''
       = Some \<lparr>Name = ''Shop One'', ID = ''S1''\<rparr>
   \<and> exampleMarshal successResponse = Inr ''envelope''
   \<and> json_Unmarshal (exampleEnv []) ''envelope'' = Inr successResponse
   \<and> externalProductHandler exampleFiles exampleMarshal newWriter ''S1'' =
        \<lparr>W_Header = [(''content-type'', ''application/json'')],
         W_StatusCode = Some 302, W_Body = [''envelope'']\<rparr>
   \<and> existenceAnswer (exampleEnv []) ''S1'' [] = Body ''envelope''
   \<and> fst (getExternalProduct (exampleEnv []) ''S1'' []) = (False, None)"
proof -
  have a: "getShopMap exampleFiles = Inr (shopMap_loop [\<lparr>Name = ''Shop One'', ID = ''S1''\<rparr>] Map.empty)"
    by (simp add: getShopMap_def exampleFiles_def)
  have b: "shopMap_loop [\<lparr>Name = ''Shop One'', ID = ''S1''\<rparr>] Map.empty ''S1''
       = Some \<lparr>Name = ''Shop One'', ID = ''S1''\<rparr>"
    by simp
  have c: "exampleMarshal successResponse = Inr ''envelope''"
    by (simp add: exampleMarshal_def)
  have d: "json_Unmarshal (exampleEnv []) ''envelope'' = Inr successResponse"
    by (simp add: exampleEnv_def)
  have f: "existenceAnswer (exampleEnv []) ''S1'' [] = Body ''envelope''"
    by (simp add: existenceAnswer_def exampleEnv_def)
  note t = marketplace_envelope_never_reports_existence
    [where fs = exampleFiles and ident = "''S1''" and marshal = exampleMarshal
       and e = "exampleEnv []" and b = "''envelope''", OF a b c d]
  from t have "externalProductHandler exampleFiles exampleMarshal newWriter ''S1'' =
        \<lparr>W_Header = [(''content-type'', ''application/json'')],
         W_StatusCode = Some 302, W_Body = [''envelope'']\<rparr>"
    by simp
  moreover from t f have "fst (getExternalProduct (exampleEnv []) ''S1'' []) = (False, None)"
    by blast
  ultimately show ?thesis using a b c d f by blast
qed


end
